theory Spec2Isabelle
  imports Complex_Main "HOL-Library.Sublist"
begin

section \<open>Numbers\<close>

text \<open>
  Python floats are idealised as exact rationals: products and sums are exact, and
  \<open>round(x, 4)\<close> rounds the exact value to four decimal places, ties going to the even
  neighbour, as Python's \<open>round\<close> does on the value it is given.
\<close>

definition round_half_even :: "rat \<Rightarrow> int" where
  "round_half_even x =
     (let f = \<lfloor>x\<rfloor>; d = x - of_int f
      in if d < 1 / 2 then f
         else if 1 / 2 < d then f + 1
         else if even f then f else f + 1)"

definition round4 :: "rat \<Rightarrow> rat" where
  "round4 x = of_int (round_half_even (x * 10000)) / 10000"

section \<open>emission_factors.py\<close>

subsection \<open>The emission factor database\<close>

record emission_factor =
  factor :: rat
  unit :: string

type_synonym activities = "(string \<times> emission_factor) list"
type_synonym catalog = "(string \<times> activities) list"



subsection \<open>Helper functions\<close>

datatype error = KeyError | ValueError | TypeError | AttributeError

text \<open>
  The database is a module-level dictionary that \<open>update_emission_factor\<close> may change, so
  every function takes the current catalog. \<open>EMISSION_FACTORS.get(category, {}).get(activity)\<close>:
  an unknown category gives the empty dictionary, whose \<open>get\<close> gives \<open>None\<close>.
\<close>

definition get_emission_factor :: "catalog \<Rightarrow> string \<Rightarrow> string \<Rightarrow> emission_factor option" where
  "get_emission_factor C category activity =
     (case map_of C category of
        None \<Rightarrow> None
      | Some acts \<Rightarrow> map_of acts activity)"

text \<open>
  \<open>if ef:\<close> tests a dictionary with the two keys \<open>factor\<close> and \<open>unit\<close>, which is never
  empty and so always true when the lookup found an entry; \<open>None\<close> is false.
\<close>

definition calculate_emission :: "catalog \<Rightarrow> string \<Rightarrow> string \<Rightarrow> rat \<Rightarrow> error + rat" where
  "calculate_emission C category activity amount =
     (case get_emission_factor C category activity of
        Some e \<Rightarrow> Inr (round4 (factor e * amount))
      | None \<Rightarrow> Inl ValueError)"

text \<open>
  \<open>total_emission_by_scope\<close>: the two nested loops over \<open>usage_dict.items()\<close> and
  \<open>acts.items()\<close>, with the running total as accumulator. A \<open>ValueError\<close> of
  \<open>calculate_emission\<close> is caught and the pair skipped (no other error arises on numeric
  amounts). The \<open>scope\<close> argument is never read.
\<close>

type_synonym usage = "(string \<times> (string \<times> rat) list) list"

fun acts_loop :: "catalog \<Rightarrow> string \<Rightarrow> (string \<times> rat) list \<Rightarrow> rat \<Rightarrow> rat" where
  "acts_loop C category [] acc = acc"
| "acts_loop C category ((act, amt) # rest) acc =
     (case calculate_emission C category act amt of
        Inr e \<Rightarrow> acts_loop C category rest (acc + e)
      | Inl _ \<Rightarrow> acts_loop C category rest acc)"

fun usage_loop :: "catalog \<Rightarrow> usage \<Rightarrow> rat \<Rightarrow> rat" where
  "usage_loop C [] acc = acc"
| "usage_loop C ((category, acts) # rest) acc =
     usage_loop C rest (acts_loop C category acts acc)"

definition total_emission_by_scope :: "catalog \<Rightarrow> string \<Rightarrow> usage \<Rightarrow> rat" where
  "total_emission_by_scope C scope usage_dict = round4 (usage_loop C usage_dict 0)"



section \<open>data_handler.py\<close>

subsection \<open>Values, tables and the library\<close>

text \<open>
  A value of a table cell or of an argument: \<open>NA\<close> is the missing value (\<open>None\<close> as an
  argument, \<open>NaN\<close> or \<open>NaT\<close> in a table), \<open>Str\<close> a string, \<open>Num\<close> a number and \<open>Ts\<close> a
  timestamp, a point on an integer time line. Infinite floats do not exist in the model.
\<close>

datatype cell = NA | Str string | Num rat | Ts int

text \<open>
  A DataFrame: its column labels in order, and its rows in index order. A row gives the
  value under each label; under a label that is not a column of the frame it gives \<open>NA\<close>
  (\<open>wf_frame\<close>), which is also what a row of the frame shows under a column that
  \<open>pd.concat\<close> adds to it. The dtype of a column is not modelled.
\<close>

type_synonym row = "string \<Rightarrow> cell"

record dataframe =
  columns :: "string list"
  rows :: "row list"

definition wf_frame :: "dataframe \<Rightarrow> bool" where
  "wf_frame df = (\<forall>r \<in> set (rows df). \<forall>c. c \<notin> set (columns df) \<longrightarrow> r c = NA)"

text \<open>A row from a dictionary literal.\<close>

definition mk_row :: "(string \<times> cell) list \<Rightarrow> row" where
  "mk_row kvs = (\<lambda>c. case map_of kvs c of None \<Rightarrow> NA | Some v \<Rightarrow> v)"

text \<open>
  The parsers and the formatter of pandas and of Python, which are not part of the
  repository, are parameters: \<open>parse_datetime\<close> reads a string or a number as a timestamp,
  \<open>parse_float\<close> is \<open>float\<close> on a string (\<open>None\<close>: the parser raises), and
  \<open>strftime_ym\<close> is \<open>strftime('%Y-%m')\<close>.
\<close>

record pandas =
  parse_datetime :: "cell \<Rightarrow> int option"
  parse_float :: "string \<Rightarrow> rat option"
  strftime_ym :: "int \<Rightarrow> string"

text \<open>Python's truth value of an argument.\<close>

fun truthy :: "cell \<Rightarrow> bool" where
  "truthy NA = False"
| "truthy (Str s) = (s \<noteq> [])"
| "truthy (Num q) = (q \<noteq> 0)"
| "truthy (Ts t) = True"

text \<open>\<open>float(x)\<close> on an argument.\<close>

fun py_float :: "pandas \<Rightarrow> cell \<Rightarrow> error + rat" where
  "py_float P (Num q) = Inr q"
| "py_float P (Str s) = (case parse_float P s of None \<Rightarrow> Inl ValueError | Some q \<Rightarrow> Inr q)"
| "py_float P NA = Inl TypeError"
| "py_float P (Ts t) = Inl TypeError"

text \<open>
  \<open>astype(float)\<close> on one cell of a column: a missing cell becomes \<open>NaN\<close> (\<open>None\<close> here).
\<close>

fun astype_float :: "pandas \<Rightarrow> cell \<Rightarrow> error + rat option" where
  "astype_float P NA = Inr None"
| "astype_float P (Num q) = Inr (Some q)"
| "astype_float P (Str s) = (case parse_float P s of None \<Rightarrow> Inl ValueError | Some q \<Rightarrow> Inr (Some q))"
| "astype_float P (Ts t) = Inl TypeError"

text \<open>The product of two floats of a column, \<open>NaN\<close> absorbing, and the cell that holds a float.\<close>

fun mul_nan :: "rat option \<Rightarrow> rat option \<Rightarrow> rat option" where
  "mul_nan (Some a) (Some b) = Some (a * b)"
| "mul_nan _ _ = None"

fun float_cell :: "rat option \<Rightarrow> cell" where
  "float_cell None = NA"
| "float_cell (Some q) = Num q"

text \<open>
  \<open>pd.Timestamp(x)\<close> and \<open>pd.to_datetime\<close> on one value: a missing value gives \<open>NaT\<close>, a
  timestamp itself, anything else goes through the parser.
\<close>

fun to_datetime :: "pandas \<Rightarrow> cell \<Rightarrow> error + cell" where
  "to_datetime P NA = Inr NA"
| "to_datetime P (Ts t) = Inr (Ts t)"
| "to_datetime P v = (case parse_datetime P v of None \<Rightarrow> Inl ValueError | Some t \<Rightarrow> Inr (Ts t))"

text \<open>An operation on every cell of a column raises the first error it meets.\<close>

fun traverse :: "('a \<Rightarrow> error + 'b) \<Rightarrow> 'a list \<Rightarrow> error + 'b list" where
  "traverse f [] = Inr []"
| "traverse f (x # xs) =
     (case f x of
        Inl e \<Rightarrow> Inl e
      | Inr y \<Rightarrow> (case traverse f xs of Inl e \<Rightarrow> Inl e | Inr ys \<Rightarrow> Inr (y # ys)))"

text \<open>\<open>df[c]\<close> read as a list of cells, and \<open>df[c] = values\<close>.\<close>

definition col :: "string \<Rightarrow> dataframe \<Rightarrow> cell list" where
  "col c df = map (\<lambda>r. r c) (rows df)"

definition set_column :: "string \<Rightarrow> cell list \<Rightarrow> dataframe \<Rightarrow> dataframe" where
  "set_column c vals df =
     \<lparr>columns = (if c \<in> set (columns df) then columns df else columns df @ [c]),
      rows = map (\<lambda>(r, v). r(c := v)) (zip (rows df) vals)\<rparr>"

text \<open>
  \<open>pd.concat([a, b], ignore_index=True)\<close>: the columns of \<open>a\<close>, then the new ones of \<open>b\<close>;
  the rows of \<open>a\<close>, then those of \<open>b\<close>.
\<close>

definition concat_frames :: "dataframe \<Rightarrow> dataframe \<Rightarrow> dataframe" where
  "concat_frames a b =
     \<lparr>columns = columns a @ filter (\<lambda>c. c \<notin> set (columns a)) (columns b),
      rows = rows a @ rows b\<rparr>"

text \<open>\<open>DataFrame.empty\<close>: no rows or no columns.\<close>

definition df_empty :: "dataframe \<Rightarrow> bool" where
  "df_empty df = (rows df = [] \<or> columns df = [])"

subsection \<open>The ledger\<close>

text \<open>
  The state of a \<open>DataHandler\<close> that the operations below read and write is the table
  \<open>self.emissions_data\<close>; each operation takes it and returns it with its result. Writing
  the table to the JSON file (\<open>save_emissions_data\<close>, which catches its own errors and
  works on a copy) leaves it as it is and is not modelled.
\<close>

definition create_empty_emissions_data :: dataframe where
  "create_empty_emissions_data =
     \<lparr>columns = [''date'', ''scope'', ''category'', ''activity'', ''quantity'', ''unit'',
                 ''emission_factor'', ''emissions_kgCO2e'', ''notes''],
      rows = []\<rparr>"

text \<open>
  \<open>add_emission_entry\<close>: the \<open>ValueError\<close> of the validation and every error of the
  conversions are caught by the \<open>except\<close> clause, which returns \<open>False\<close>; the table is
  assigned only after all of them have succeeded.
\<close>

definition add_emission_entry ::
  "pandas \<Rightarrow> dataframe \<Rightarrow> cell \<Rightarrow> cell \<Rightarrow> cell \<Rightarrow> cell \<Rightarrow> cell \<Rightarrow> cell \<Rightarrow> cell \<Rightarrow> cell
     \<Rightarrow> bool \<times> dataframe" where
  "add_emission_entry P emissions_data date scope category activity quantity unit' emission_factor notes =
     (if \<not> list_all truthy [scope, category, activity, quantity, emission_factor]
      then (False, emissions_data)
      else
        (case py_float P quantity of
           Inl e \<Rightarrow> (False, emissions_data)
         | Inr q \<Rightarrow>
        (case py_float P emission_factor of
           Inl e \<Rightarrow> (False, emissions_data)
         | Inr f \<Rightarrow>
        (case to_datetime P date of
           Inl e \<Rightarrow> (False, emissions_data)
         | Inr d \<Rightarrow>
             (let emissions_kgCO2e = q * f;
                  new_entry =
                    \<lparr>columns = [''date'', ''scope'', ''category'', ''activity'', ''quantity'',
                                ''unit'', ''emission_factor'', ''emissions_kgCO2e'', ''notes''],
                     rows = [mk_row
                       [(''date'', d),
                        (''scope'', scope),
                        (''category'', category),
                        (''activity'', activity),
                        (''quantity'', Num q),
                        (''unit'', unit'),
                        (''emission_factor'', Num f),
                        (''emissions_kgCO2e'', Num emissions_kgCO2e),
                        (''notes'', notes)]]\<rparr>
              in (True, concat_frames emissions_data new_entry))))))"

text \<open>
  \<open>import_csv\<close> takes the table that \<open>pd.read_csv\<close> has read. Its message is the text
  of the schema error, the count of the success message
  (\<open>Successfully imported n entries.\<close>) or the text of a caught exception.
\<close>

datatype message = Text string | Imported nat | ErrorText error

fun str_join :: "string \<Rightarrow> string list \<Rightarrow> string" where
  "str_join sep [] = []"
| "str_join sep [x] = x"
| "str_join sep (x # y # ys) = x @ sep @ str_join sep (y # ys)"

definition required :: "string list" where
  "required = [''date'', ''scope'', ''category'', ''activity'', ''quantity'', ''unit'',
               ''emission_factor'']"

definition import_csv :: "pandas \<Rightarrow> dataframe \<Rightarrow> dataframe \<Rightarrow> (bool \<times> message) \<times> dataframe" where
  "import_csv P emissions_data df =
     (let missing = filter (\<lambda>c. c \<notin> set (columns df)) required
      in if missing \<noteq> []
         then ((False, Text (''Missing required columns: '' @ str_join '', '' missing)), emissions_data)
         else
           (case traverse (to_datetime P) (col ''date'' df) of
              Inl e \<Rightarrow> ((False, ErrorText e), emissions_data)
            | Inr dates \<Rightarrow>
           (let df1 = set_column ''date'' dates df
            in
           (case traverse (astype_float P) (col ''quantity'' df1) of
              Inl e \<Rightarrow> ((False, ErrorText e), emissions_data)
            | Inr qs \<Rightarrow>
           (case traverse (astype_float P) (col ''emission_factor'' df1) of
              Inl e \<Rightarrow> ((False, ErrorText e), emissions_data)
            | Inr fs \<Rightarrow>
               (let df2 = set_column ''emissions_kgCO2e''
                            (map (\<lambda>(q, f). float_cell (mul_nan q f)) (zip qs fs)) df1;
                    df3 = (if ''notes'' \<notin> set (columns df2)
                           then set_column ''notes'' (replicate (length (rows df2)) (Str [])) df2
                           else df2)
                in ((True, Imported (length (rows df3))), concat_frames emissions_data df3)))))))"

subsection \<open>Summary and filter\<close>

text \<open>
  \<open>Series.sum()\<close> skips missing values. A column that holds a string or a timestamp is
  outside the numeric model and is reported as a \<open>TypeError\<close>.
\<close>

fun nansum :: "cell list \<Rightarrow> rat" where
  "nansum [] = 0"
| "nansum (Num q # vs) = q + nansum vs"
| "nansum (_ # vs) = nansum vs"

fun is_float :: "cell \<Rightarrow> bool" where
  "is_float NA = True"
| "is_float (Num q) = True"
| "is_float _ = False"

text \<open>
  \<open>df.groupby(key)[val].sum().to_dict()\<close>: one entry for each distinct value of the key
  column; the rows whose key is missing belong to no group (\<open>dropna=True\<close>, the default of
  \<open>groupby\<close>). The dictionary is an association list with distinct keys; pandas sorts the
  groups, which a dictionary comparison does not see, and the list keeps the order of the
  table instead.
\<close>

definition group_keys :: "string \<Rightarrow> row list \<Rightarrow> cell list" where
  "group_keys key rs = remdups (filter (\<lambda>k. k \<noteq> NA) (map (\<lambda>r. r key) rs))"

definition groupby_sum :: "string \<Rightarrow> string \<Rightarrow> dataframe \<Rightarrow> (cell \<times> rat) list" where
  "groupby_sum key val df =
     map (\<lambda>k. (k, nansum (map (\<lambda>r. r val) (filter (\<lambda>r. r key = k) (rows df)))))
       (group_keys key (rows df))"

text \<open>
  \<open>df.groupby(['month', 'scope'])[val].sum().unstack().fillna(0).to_dict()\<close>: for each
  scope a dictionary from month to sum, over the rows with a month and a scope; a pair of
  month and scope without rows gets 0.
\<close>

definition month_scope_sums :: "string \<Rightarrow> dataframe \<Rightarrow> (cell \<times> (cell \<times> rat) list) list" where
  "month_scope_sums val df =
     (let kept = filter (\<lambda>r. r ''month'' \<noteq> NA \<and> r ''scope'' \<noteq> NA) (rows df)
      in map (\<lambda>s. (s,
            map (\<lambda>m. (m, nansum (map (\<lambda>r. r val)
                    (filter (\<lambda>r. r ''month'' = m \<and> r ''scope'' = s) kept))))
              (group_keys ''month'' kept)))
           (group_keys ''scope'' kept))"

text \<open>
  \<open>.dt.strftime('%Y-%m')\<close> on one cell: \<open>.dt\<close> raises on a column that is not
  datetime-like, that is, here, one with a cell that is neither a timestamp nor missing.
\<close>

fun dt_strftime :: "pandas \<Rightarrow> cell \<Rightarrow> error + cell" where
  "dt_strftime P NA = Inr NA"
| "dt_strftime P (Ts t) = Inr (Str (strftime_ym P t))"
| "dt_strftime P _ = Inl AttributeError"

record summary =
  total_emissions :: rat
  scope_breakdown :: "(cell \<times> rat) list"
  category_breakdown :: "(cell \<times> rat) list"
  time_series :: "(cell \<times> (cell \<times> rat) list) list"

text \<open>
  \<open>get_emissions_summary\<close> has no \<open>except\<close> clause: a missing column (\<open>KeyError\<close>) or a
  column of the wrong kind leaves the function as an exception. All of them arise before
  the assignment of the \<open>month\<close> column to \<open>self.emissions_data\<close>.
\<close>

definition get_emissions_summary :: "pandas \<Rightarrow> dataframe \<Rightarrow> (error + summary) \<times> dataframe" where
  "get_emissions_summary P emissions_data =
     (if df_empty emissions_data
      then (Inr \<lparr>total_emissions = 0, scope_breakdown = [], category_breakdown = [],
                 time_series = []\<rparr>, emissions_data)
      else if ''emissions_kgCO2e'' \<notin> set (columns emissions_data) then (Inl KeyError, emissions_data)
      else if \<not> list_all is_float (col ''emissions_kgCO2e'' emissions_data)
        then (Inl TypeError, emissions_data)
      else if ''scope'' \<notin> set (columns emissions_data) then (Inl KeyError, emissions_data)
      else if ''category'' \<notin> set (columns emissions_data) then (Inl KeyError, emissions_data)
      else if ''date'' \<notin> set (columns emissions_data) then (Inl KeyError, emissions_data)
      else
        (case traverse (dt_strftime P) (col ''date'' emissions_data) of
           Inl e \<Rightarrow> (Inl e, emissions_data)
         | Inr months \<Rightarrow>
             (let total = nansum (col ''emissions_kgCO2e'' emissions_data);
                  scope = groupby_sum ''scope'' ''emissions_kgCO2e'' emissions_data;
                  category = groupby_sum ''category'' ''emissions_kgCO2e'' emissions_data;
                  emissions_data' = set_column ''month'' months emissions_data;
                  time_series = month_scope_sums ''emissions_kgCO2e'' emissions_data'
              in (Inr \<lparr>total_emissions = total, scope_breakdown = scope,
                        category_breakdown = category, time_series = time_series\<rparr>,
                  emissions_data'))))"

text \<open>
  The comparisons of \<open>get_filtered_data\<close>, cell by cell: a missing date is in no range,
  a cell that is not a date cannot be compared with a timestamp, and a missing value is
  equal to nothing.
\<close>

fun date_ge :: "cell \<Rightarrow> cell \<Rightarrow> error + bool" where
  "date_ge (Ts d) (Ts t) = Inr (t \<le> d)"
| "date_ge NA _ = Inr False"
| "date_ge (Ts d) NA = Inr False"
| "date_ge _ _ = Inl TypeError"

fun date_le :: "cell \<Rightarrow> cell \<Rightarrow> error + bool" where
  "date_le (Ts d) (Ts t) = Inr (d \<le> t)"
| "date_le NA _ = Inr False"
| "date_le (Ts d) NA = Inr False"
| "date_le _ _ = Inl TypeError"

definition cell_eq :: "cell \<Rightarrow> cell \<Rightarrow> bool" where
  "cell_eq a b = (a \<noteq> NA \<and> a = b)"

definition select_rows :: "bool list \<Rightarrow> dataframe \<Rightarrow> dataframe" where
  "select_rows keep df = df\<lparr>rows := map fst (filter snd (zip (rows df) keep))\<rparr>"

definition filter_dates :: "pandas \<Rightarrow> cell \<Rightarrow> cell \<Rightarrow> dataframe \<Rightarrow> error + dataframe" where
  "filter_dates P start_date end_date data =
     (if truthy start_date \<and> truthy end_date
      then
        (if ''date'' \<notin> set (columns data) then Inl KeyError
         else
           (case to_datetime P start_date of
              Inl e \<Rightarrow> Inl e
            | Inr s \<Rightarrow>
           (case traverse (\<lambda>v. date_ge v s) (col ''date'' data) of
              Inl e \<Rightarrow> Inl e
            | Inr ge \<Rightarrow>
           (case to_datetime P end_date of
              Inl e \<Rightarrow> Inl e
            | Inr t \<Rightarrow>
           (case traverse (\<lambda>v. date_le v t) (col ''date'' data) of
              Inl e \<Rightarrow> Inl e
            | Inr le \<Rightarrow> Inr (select_rows (map (\<lambda>(a, b). a \<and> b) (zip ge le)) data))))))
      else Inr data)"

definition filter_equal :: "string \<Rightarrow> cell \<Rightarrow> dataframe \<Rightarrow> error + dataframe" where
  "filter_equal c v data =
     (if truthy v
      then (if c \<notin> set (columns data) then Inl KeyError
            else Inr (select_rows (map (\<lambda>x. cell_eq x v) (col c data)) data))
      else Inr data)"

definition get_filtered_data ::
  "pandas \<Rightarrow> dataframe \<Rightarrow> cell \<Rightarrow> cell \<Rightarrow> cell \<Rightarrow> cell \<Rightarrow> (error + dataframe) \<times> dataframe" where
  "get_filtered_data P emissions_data start_date end_date scope category =
     (let data = emissions_data
      in (case filter_dates P start_date end_date data of
            Inl e \<Rightarrow> (Inl e, emissions_data)
          | Inr data1 \<Rightarrow>
          (case filter_equal ''scope'' scope data1 of
             Inl e \<Rightarrow> (Inl e, emissions_data)
           | Inr data2 \<Rightarrow>
          (case filter_equal ''category'' category data2 of
             Inl e \<Rightarrow> (Inl e, emissions_data)
           | Inr data3 \<Rightarrow> (Inr data3, emissions_data)))))"

subsection \<open>Notions used in the properties\<close>


text \<open>
  A date cell lies in the range of two date arguments: the cell and both bounds are
  timestamps, and the cell is between the bounds, the bounds included.
\<close>

definition in_date_range :: "pandas \<Rightarrow> cell \<Rightarrow> cell \<Rightarrow> cell \<Rightarrow> bool" where
  "in_date_range P start_date end_date v =
     (case (to_datetime P start_date, to_datetime P end_date, v) of
        (Inr (Ts s), Inr (Ts t), Ts d) \<Rightarrow> s \<le> d \<and> d \<le> t
      | _ \<Rightarrow> False)"


subsection \<open>Example data\<close>

text \<open>
  An instance of the library whose time line counts the days of 2025 and whose parser
  knows two date strings; a ledger with one entry, made by \<open>add_emission_entry\<close>; and a
  table of two rows as read from a CSV file, the second with an empty scope cell.
\<close>

definition example_lib :: pandas where
  "example_lib =
     \<lparr>parse_datetime = (\<lambda>v. if v = Str ''2025-01-15'' then Some 15
                             else if v = Str ''2025-02-20'' then Some 51 else None),
      parse_float = (\<lambda>s. None),
      strftime_ym = (\<lambda>t. if t \<le> 31 then ''2025-01'' else ''2025-02'')\<rparr>"

definition example_ledger :: dataframe where
  "example_ledger =
     snd (add_emission_entry example_lib create_empty_emissions_data (Ts 15) (Str ''Scope 2'')
            (Str ''Electricity'') (Str ''India Grid'') (Num 1000) (Str ''kWh'') (Num (82 / 100))
            (Str []))"



section \<open>Properties of the emission factor functions\<close>






text \<open>
  C10: the result of \<open>total_emission_by_scope\<close> is the same for any two scope arguments:
  the scope does not select which pairs of the usage map are summed.
\<close>

theorem total_emission_by_scope_ignores_scope:
  "total_emission_by_scope C s1 m = total_emission_by_scope C s2 m"
  by (simp add: total_emission_by_scope_def)

section \<open>Properties of the ledger\<close>

subsection \<open>The example data, evaluated\<close>

lemma mk_row_apply: "mk_row kvs c = (case map_of kvs c of None \<Rightarrow> NA | Some v \<Rightarrow> v)"
  by (simp add: mk_row_def)

lemma example_ledger_unfold:
  "example_ledger =
     \<lparr>columns = [''date'', ''scope'', ''category'', ''activity'', ''quantity'', ''unit'',
                 ''emission_factor'', ''emissions_kgCO2e'', ''notes''],
      rows = [mk_row
                [(''date'', Ts 15), (''scope'', Str ''Scope 2''), (''category'', Str ''Electricity''),
                 (''activity'', Str ''India Grid''), (''quantity'', Num 1000), (''unit'', Str ''kWh''),
                 (''emission_factor'', Num (82 / 100)), (''emissions_kgCO2e'', Num 820),
                 (''notes'', Str [])]]\<rparr>"
  by (simp add: example_ledger_def add_emission_entry_def concat_frames_def
      create_empty_emissions_data_def)


subsection \<open>Adding an entry\<close>

text \<open>
  C1, as the code has it: \<open>add_emission_entry\<close> fails when any of scope, category,
  activity, quantity and emission factor is missing or empty, where a quantity or an
  emission factor of zero counts as missing; and whenever the call fails, the ledger is
  the one before the call.
\<close>

theorem add_emission_entry_rejects_missing:
  "(\<not> (truthy scope \<and> truthy category \<and> truthy activity \<and> truthy quantity \<and> truthy emission_factor)
      \<longrightarrow> add_emission_entry P L date scope category activity quantity unit' emission_factor notes
            = (False, L))
   \<and> (fst (add_emission_entry P L date scope category activity quantity unit' emission_factor notes) = False
      \<longrightarrow> snd (add_emission_entry P L date scope category activity quantity unit' emission_factor notes) = L)"
  by (auto simp: add_emission_entry_def Let_def split: sum.splits)

theorem add_emission_entry_rejects_missing_witness:
  "\<not> (truthy (Str ''Scope 2'') \<and> truthy (Str ''Electricity'') \<and> truthy (Str []) \<and> truthy (Num 1000)
        \<and> truthy (Num (82 / 100)))
   \<and> add_emission_entry example_lib create_empty_emissions_data (Ts 15) (Str ''Scope 2'')
        (Str ''Electricity'') (Str []) (Num 1000) (Str ''kWh'') (Num (82 / 100)) (Str [])
      = (False, create_empty_emissions_data)
   \<and> fst (add_emission_entry example_lib create_empty_emissions_data (Ts 15) (Str ''Scope 2'')
        (Str ''Electricity'') (Str []) (Num 1000) (Str ''kWh'') (Num (82 / 100)) (Str [])) = False
   \<and> snd (add_emission_entry example_lib create_empty_emissions_data (Ts 15) (Str ''Scope 2'')
        (Str ''Electricity'') (Str []) (Num 1000) (Str ''kWh'') (Num (82 / 100)) (Str []))
      = create_empty_emissions_data"
  using add_emission_entry_rejects_missing [of "Str ''Scope 2''" "Str ''Electricity''" "Str []"
      "Num 1000" "Num (82 / 100)" example_lib create_empty_emissions_data "Ts 15" "Str ''kWh''" "Str []"]
  by simp

text \<open>
  The claim permits a quantity of zero. The call with quantity 0 fails, while the same
  call with quantity 1000 succeeds.
\<close>

theorem add_emission_entry_zero_quantity_rejected:
  "add_emission_entry example_lib create_empty_emissions_data (Ts 15) (Str ''Scope 2'')
        (Str ''Electricity'') (Str ''India Grid'') (Num 0) (Str ''kWh'') (Num (82 / 100)) (Str [])
      = (False, create_empty_emissions_data)
   \<and> fst (add_emission_entry example_lib create_empty_emissions_data (Ts 15) (Str ''Scope 2'')
        (Str ''Electricity'') (Str ''India Grid'') (Num 1000) (Str ''kWh'') (Num (82 / 100)) (Str [])) = True"
  by (simp add: add_emission_entry_def)

text \<open>There is no check of the sign: a quantity of -5 is appended.\<close>

lemma add_emission_entry_negative_quantity_accepted:
  "fst (add_emission_entry example_lib create_empty_emissions_data (Ts 15) (Str ''Scope 2'')
        (Str ''Electricity'') (Str ''India Grid'') (Num (- 5)) (Str ''kWh'') (Num (82 / 100)) (Str [])) = True
   \<and> length (rows (snd (add_emission_entry example_lib create_empty_emissions_data (Ts 15) (Str ''Scope 2'')
        (Str ''Electricity'') (Str ''India Grid'') (Num (- 5)) (Str ''kWh'') (Num (82 / 100)) (Str [])))) = 1"
  by (simp add: add_emission_entry_def concat_frames_def create_empty_emissions_data_def)

subsection \<open>Importing a table\<close>

text \<open>
  C2: a table that lacks a required column is rejected as a whole: the result is
  \<open>False\<close> with the message that lists the missing columns (there is at least one, and
  they are the required columns that the table does not have), and the ledger is the one
  before the call.
\<close>

theorem import_csv_missing_column:
  "\<not> set required \<subseteq> set (columns df) \<Longrightarrow>
     import_csv P L df =
       ((False, Text (''Missing required columns: ''
                      @ str_join '', '' (filter (\<lambda>c. c \<notin> set (columns df)) required))), L)
     \<and> filter (\<lambda>c. c \<notin> set (columns df)) required \<noteq> []
     \<and> set (filter (\<lambda>c. c \<notin> set (columns df)) required) = set required - set (columns df)"
proof -
  assume a: "\<not> set required \<subseteq> set (columns df)"
  then have ne: "filter (\<lambda>c. c \<notin> set (columns df)) required \<noteq> []"
    by (auto simp: filter_empty_conv)
  then have "import_csv P L df =
       ((False, Text (''Missing required columns: ''
                      @ str_join '', '' (filter (\<lambda>c. c \<notin> set (columns df)) required))), L)"
    by (simp add: import_csv_def Let_def)
  with ne show ?thesis by auto
qed

theorem import_csv_missing_column_witness:
  "\<not> set required \<subseteq> set (columns \<lparr>columns = [''date'', ''scope'', ''category'', ''activity'', ''quantity''],
          rows = [mk_row [(''date'', Str ''2025-01-15''), (''scope'', Str ''Scope 2''),
                          (''category'', Str ''Electricity''), (''activity'', Str ''India Grid''),
                          (''quantity'', Num 1000)]]\<rparr>)
   \<and> import_csv example_lib create_empty_emissions_data
        \<lparr>columns = [''date'', ''scope'', ''category'', ''activity'', ''quantity''],
          rows = [mk_row [(''date'', Str ''2025-01-15''), (''scope'', Str ''Scope 2''),
                          (''category'', Str ''Electricity''), (''activity'', Str ''India Grid''),
                          (''quantity'', Num 1000)]]\<rparr>
      = ((False, Text ''Missing required columns: unit, emission_factor''), create_empty_emissions_data)"
  using import_csv_missing_column [of
      "\<lparr>columns = [''date'', ''scope'', ''category'', ''activity'', ''quantity''],
          rows = [mk_row [(''date'', Str ''2025-01-15''), (''scope'', Str ''Scope 2''),
                          (''category'', Str ''Electricity''), (''activity'', Str ''India Grid''),
                          (''quantity'', Num 1000)]]\<rparr>" example_lib create_empty_emissions_data]
  by (simp add: required_def)

lemma traverse_Inr:
  "traverse f xs = Inr ys \<Longrightarrow> length ys = length xs \<and> (\<forall>i < length xs. f (xs ! i) = Inr (ys ! i))"
proof (induction xs arbitrary: ys)
  case Nil
  then show ?case by simp
next
  case (Cons x xs)
  from Cons.prems obtain y ys' where fx: "f x = Inr y" and tr: "traverse f xs = Inr ys'" and ys: "ys = y # ys'"
    by (auto split: sum.splits)
  from Cons.IH [OF tr] have len: "length ys' = length xs" and nth: "\<forall>i < length xs. f (xs ! i) = Inr (ys' ! i)"
    by simp_all
  show ?case
  proof (intro conjI allI impI)
    show "length ys = length (x # xs)" using len ys by simp
  next
    fix i assume "i < length (x # xs)"
    then show "f ((x # xs) ! i) = Inr (ys ! i)"
      using fx nth ys by (cases i) simp_all
  qed
qed

lemma set_column_length:
  "length vals = length (rows df) \<Longrightarrow> length (rows (set_column c vals df)) = length (rows df)"
  by (simp add: set_column_def)

lemma set_column_nth:
  "i < length (rows df) \<Longrightarrow> length vals = length (rows df) \<Longrightarrow>
     rows (set_column c vals df) ! i = (rows df ! i)(c := vals ! i)"
  by (simp add: set_column_def)








subsection \<open>Filtering\<close>

lemma date_ge_True: "date_ge v s = Inr True \<longleftrightarrow> (\<exists>d t. v = Ts d \<and> s = Ts t \<and> t \<le> d)"
  by (cases "(v, s)" rule: date_ge.cases) auto

lemma date_le_True: "date_le v s = Inr True \<longleftrightarrow> (\<exists>d t. v = Ts d \<and> s = Ts t \<and> d \<le> t)"
  by (cases "(v, s)" rule: date_le.cases) auto

lemma select_two_masks:
  "traverse f (map g xs) = Inr as \<Longrightarrow> traverse h (map g xs) = Inr bs \<Longrightarrow>
     map fst (filter snd (zip xs (map (\<lambda>(a, b). a \<and> b) (zip as bs))))
       = filter (\<lambda>x. f (g x) = Inr True \<and> h (g x) = Inr True) xs"
proof (induction xs arbitrary: as bs)
  case Nil
  then show ?case by simp
next
  case (Cons x xs)
  from Cons.prems(1) obtain a as' where a: "f (g x) = Inr a" "traverse f (map g xs) = Inr as'" "as = a # as'"
    by (auto split: sum.splits)
  from Cons.prems(2) obtain b bs' where b: "h (g x) = Inr b" "traverse h (map g xs) = Inr bs'" "bs = b # bs'"
    by (auto split: sum.splits)
  show ?case
    using Cons.IH [OF a(2) b(2)] a b by simp
qed

lemma select_map_mask: "map fst (filter snd (zip xs (map p xs))) = filter p xs"
  by (induction xs) simp_all

lemma to_datetime_truthy:
  "truthy v \<Longrightarrow> to_datetime P v = Inr w \<Longrightarrow> \<exists>t. w = Ts t"
  by (cases v) (auto split: option.splits)

lemma filter_dates_Inr:
  assumes "filter_dates P start_date end_date data = Inr data1"
  shows "columns data1 = columns data \<and>
         rows data1 = filter (\<lambda>r. truthy start_date \<and> truthy end_date
                                \<longrightarrow> in_date_range P start_date end_date (r ''date'')) (rows data)"
proof (cases "truthy start_date \<and> truthy end_date")
  case False
  then show ?thesis using assms by (auto simp: filter_dates_def)
next
  case True
  with assms obtain s t ge le where
    s: "to_datetime P start_date = Inr s" and
    ge: "traverse (\<lambda>v. date_ge v s) (map (\<lambda>r. r ''date'') (rows data)) = Inr ge" and
    t: "to_datetime P end_date = Inr t" and
    le: "traverse (\<lambda>v. date_le v t) (map (\<lambda>r. r ''date'') (rows data)) = Inr le" and
    d1: "data1 = select_rows (map (\<lambda>(a, b). a \<and> b) (zip ge le)) data"
    by (auto simp: filter_dates_def col_def split: if_splits sum.splits)
  from True s obtain s' where s': "s = Ts s'" using to_datetime_truthy by blast
  from True t obtain t' where t': "t = Ts t'" using to_datetime_truthy by blast
  have "rows data1 = filter (\<lambda>r. date_ge (r ''date'') s = Inr True \<and> date_le (r ''date'') t = Inr True) (rows data)"
    unfolding d1 select_rows_def using select_two_masks [OF ge le] by simp
  also have "\<dots> = filter (\<lambda>r. in_date_range P start_date end_date (r ''date'')) (rows data)"
    by (rule filter_cong [OF refl])
       (auto simp: in_date_range_def s t s' t' date_ge_True date_le_True split: cell.splits)
  finally show ?thesis
    using True by (simp add: d1 select_rows_def)
qed

lemma filter_equal_Inr:
  assumes "filter_equal c v data = Inr data1"
  shows "columns data1 = columns data \<and>
         rows data1 = filter (\<lambda>r. truthy v \<longrightarrow> cell_eq (r c) v) (rows data)"
proof (cases "truthy v")
  case False
  then show ?thesis using assms by (auto simp: filter_equal_def)
next
  case True
  with assms have d1: "data1 = select_rows (map (\<lambda>x. cell_eq x v) (col c data)) data"
    by (auto simp: filter_equal_def split: if_splits)
  have "map (\<lambda>x. cell_eq x v) (col c data) = map (\<lambda>r. cell_eq (r c) v) (rows data)"
    by (simp add: col_def)
  then have "rows data1 = filter (\<lambda>r. cell_eq (r c) v) (rows data)"
    unfolding d1 select_rows_def by (simp add: select_map_mask)
  then show ?thesis using True by (simp add: d1 select_rows_def)
qed

text \<open>
  C6, as the code has it: \<open>get_filtered_data\<close> leaves the ledger as it is, and what it
  returns has the columns of the ledger and those of its rows, in their order, that pass
  every active filter: the date range, bounds included, which is active only when both
  \<open>start_date\<close> and \<open>end_date\<close> are given; the scope, when given; the category, when
  given. So the result is a subsequence of the ledger, no longer than it, and with a scope
  filter every returned record has that scope.
\<close>

theorem get_filtered_data_spec:
  "snd (get_filtered_data P L start_date end_date scope category) = L
   \<and> (fst (get_filtered_data P L start_date end_date scope category) = Inr D \<longrightarrow>
        columns D = columns L
      \<and> rows D = filter (\<lambda>r. (truthy start_date \<and> truthy end_date
                                 \<longrightarrow> in_date_range P start_date end_date (r ''date''))
                           \<and> (truthy scope \<longrightarrow> cell_eq (r ''scope'') scope)
                           \<and> (truthy category \<longrightarrow> cell_eq (r ''category'') category)) (rows L)
      \<and> subseq (rows D) (rows L)
      \<and> length (rows D) \<le> length (rows L)
      \<and> (truthy scope \<longrightarrow> (\<forall>r \<in> set (rows D). r ''scope'' = scope)))"
proof (intro conjI impI)
  show "snd (get_filtered_data P L start_date end_date scope category) = L"
    by (simp add: get_filtered_data_def split: sum.splits)
next
  assume a: "fst (get_filtered_data P L start_date end_date scope category) = Inr D"
  then obtain d1 d2 where
    1: "filter_dates P start_date end_date L = Inr d1" and
    2: "filter_equal ''scope'' scope d1 = Inr d2" and
    3: "filter_equal ''category'' category d2 = Inr D"
    by (auto simp: get_filtered_data_def split: sum.splits)
  show c: "columns D = columns L"
    using filter_dates_Inr [OF 1] filter_equal_Inr [OF 2] filter_equal_Inr [OF 3] by simp
  show r: "rows D = filter (\<lambda>r. (truthy start_date \<and> truthy end_date
                                 \<longrightarrow> in_date_range P start_date end_date (r ''date''))
                           \<and> (truthy scope \<longrightarrow> cell_eq (r ''scope'') scope)
                           \<and> (truthy category \<longrightarrow> cell_eq (r ''category'') category)) (rows L)"
    using filter_dates_Inr [OF 1] filter_equal_Inr [OF 2] filter_equal_Inr [OF 3]
    by (simp add: conj_commute conj_left_commute cong: filter_cong)
  show "subseq (rows D) (rows L)"
    unfolding r by simp
  show "length (rows D) \<le> length (rows L)"
    unfolding r by simp
  show "\<forall>r \<in> set (rows D). r ''scope'' = scope" if "truthy scope"
    unfolding r using that by (auto simp: cell_eq_def)
qed

theorem get_filtered_data_spec_witness:
  "fst (get_filtered_data example_lib example_ledger (Str ''2025-01-15'') (Ts 51) (Str ''Scope 2'') NA)
     = Inr example_ledger
   \<and> snd (get_filtered_data example_lib example_ledger (Str ''2025-01-15'') (Ts 51) (Str ''Scope 2'') NA)
     = example_ledger
   \<and> truthy (Str ''2025-01-15'') \<and> truthy (Ts 51) \<and> truthy (Str ''Scope 2'')
   \<and> col ''scope'' example_ledger = [Str ''Scope 2'']
   \<and> fst (get_filtered_data example_lib example_ledger (Str ''2025-01-15'') (Ts 51) (Str ''Scope 1'') NA)
     = Inr (example_ledger\<lparr>rows := []\<rparr>)
   \<and> subseq (rows (example_ledger\<lparr>rows := []\<rparr>)) (rows example_ledger)"
proof -
  have 1: "fst (get_filtered_data example_lib example_ledger (Str ''2025-01-15'') (Ts 51) (Str ''Scope 2'') NA)
     = Inr example_ledger"
    by (simp add: get_filtered_data_def filter_dates_def filter_equal_def example_ledger_unfold
        example_lib_def col_def mk_row_apply select_rows_def cell_eq_def Let_def)
  have 2: "fst (get_filtered_data example_lib example_ledger (Str ''2025-01-15'') (Ts 51) (Str ''Scope 1'') NA)
     = Inr (example_ledger\<lparr>rows := []\<rparr>)"
    by (simp add: get_filtered_data_def filter_dates_def filter_equal_def example_ledger_unfold
        example_lib_def col_def mk_row_apply select_rows_def cell_eq_def Let_def)
  have 3: "col ''scope'' example_ledger = [Str ''Scope 2'']"
    by (simp add: example_ledger_unfold col_def mk_row_apply)
  show ?thesis
    using get_filtered_data_spec [of example_lib example_ledger "Str ''2025-01-15''" "Ts 51"
        "Str ''Scope 2''" NA example_ledger]
      get_filtered_data_spec [of example_lib example_ledger "Str ''2025-01-15''" "Ts 51"
        "Str ''Scope 1''" NA "example_ledger\<lparr>rows := []\<rparr>"] 1 2 3
    by simp
qed

text \<open>
  The claim applies each filter that is given. With a start date and no end date the
  ledger comes back whole, with its record of day 15, which is before the start, day 51.
\<close>

theorem get_filtered_data_start_only:
  "get_filtered_data example_lib example_ledger (Ts 51) NA NA NA = (Inr example_ledger, example_ledger)
   \<and> col ''date'' example_ledger = [Ts 15]
   \<and> \<not> (51::int) \<le> 15"
  by (simp add: get_filtered_data_def filter_dates_def filter_equal_def example_ledger_def
      add_emission_entry_def concat_frames_def create_empty_emissions_data_def col_def mk_row_def)

subsection \<open>The summary\<close>









lemma groupby_sum_lookup:
  "k \<in> set (group_keys key (rows df)) \<Longrightarrow>
     map_of (groupby_sum key val df) k
       = Some (nansum (map (\<lambda>r. r val) (filter (\<lambda>r. r key = k) (rows df))))"
  by (simp add: groupby_sum_def map_of_map_restrict)






lemma col_set_column_other:
  "length vals = length (rows df) \<Longrightarrow> c \<noteq> m \<Longrightarrow> col c (set_column m vals df) = col c df"
  unfolding col_def
  by (rule nth_equalityI) (simp_all add: set_column_length set_column_nth)

lemma pair_set_column_other:
  "length vals = length (rows df) \<Longrightarrow> c \<noteq> m \<Longrightarrow> c' \<noteq> m \<Longrightarrow>
     map (\<lambda>r. (r c, r c')) (rows (set_column m vals df)) = map (\<lambda>r. (r c, r c')) (rows df)"
  by (rule nth_equalityI) (simp_all add: set_column_length set_column_nth)

lemma set_column_idem:
  assumes "length vals = length (rows df)"
  shows "set_column c vals (set_column c vals df) = set_column c vals df"
proof -
  have "rows (set_column c vals (set_column c vals df)) = rows (set_column c vals df)"
    using assms by (intro nth_equalityI) (simp_all add: set_column_length set_column_nth)
  moreover have "columns (set_column c vals (set_column c vals df)) = columns (set_column c vals df)"
    by (simp add: set_column_def)
  ultimately show ?thesis
    by (simp add: set_column_def)
qed

lemma groupby_sum_cong:
  assumes "map (\<lambda>r. (r key, r val)) (rows a) = map (\<lambda>r. (r key, r val)) (rows b)"
  shows "groupby_sum key val a = groupby_sum key val b"
proof -
  have A: "map (\<lambda>r. r key) rs = map fst (map (\<lambda>r. (r key, r val)) rs)" for rs :: "row list"
    by simp
  have B: "map (\<lambda>r. r val) (filter (\<lambda>r. r key = k) rs)
         = map snd (filter (\<lambda>p. fst p = k) (map (\<lambda>r. (r key, r val)) rs))" for rs :: "row list" and k
    by (simp add: filter_map comp_def)
  show ?thesis
    unfolding groupby_sum_def group_keys_def A B assms ..
qed

text \<open>
  Repeating the summary: a second call gives the same summary as the first. The call
  keeps the records and all their fields except \<open>month\<close>; on a ledger that is not empty
  it writes the column \<open>month\<close> into the ledger, and a second call leaves the ledger as
  the first call left it. On an empty ledger the call changes nothing.
\<close>

lemma get_emissions_summary_repeatable:
  assumes "get_emissions_summary P L = (Inr s, L')"
  shows "get_emissions_summary P L' = (Inr s, L')
       \<and> length (rows L') = length (rows L)
       \<and> (\<forall>i < length (rows L). \<forall>c. c \<noteq> ''month'' \<longrightarrow> (rows L' ! i) c = (rows L ! i) c)
       \<and> (\<forall>c. c \<noteq> ''month'' \<longrightarrow> (c \<in> set (columns L') \<longleftrightarrow> c \<in> set (columns L)))
       \<and> (df_empty L \<longrightarrow> L' = L)
       \<and> (\<not> df_empty L \<longrightarrow> ''month'' \<in> set (columns L'))"
proof (cases "df_empty L")
  case True
  with assms have "L' = L"
    by (simp add: get_emissions_summary_def)
  with assms True show ?thesis by simp
next
  case False
  let ?em = "''emissions_kgCO2e''"
  from assms False obtain months where
    c: "?em \<in> set (columns L)" "''scope'' \<in> set (columns L)" "''category'' \<in> set (columns L)"
       "''date'' \<in> set (columns L)" and
    fl: "list_all is_float (col ?em L)" and
    m: "traverse (dt_strftime P) (col ''date'' L) = Inr months" and
    L': "L' = set_column ''month'' months L" and
    s: "s = \<lparr>total_emissions = nansum (col ?em L),
             scope_breakdown = groupby_sum ''scope'' ?em L,
             category_breakdown = groupby_sum ''category'' ?em L,
             time_series = month_scope_sums ?em L'\<rparr>"
    by (auto simp: get_emissions_summary_def Let_def split: if_splits sum.splits)
  have len: "length months = length (rows L)"
    using traverse_Inr [OF m] by (simp add: col_def)
  have lenL': "length (rows L') = length (rows L)"
    unfolding L' using len by (simp add: set_column_length)
  have cols: "c \<in> set (columns L') \<longleftrightarrow> c \<in> set (columns L)" if "c \<noteq> ''month''" for c
    unfolding L' using that by (auto simp: set_column_def)
  have month: "''month'' \<in> set (columns L')"
    unfolding L' by (simp add: set_column_def)
  have ne: "\<not> df_empty L'"
    using False lenL' month by (auto simp: df_empty_def)
  have col_em: "col ?em L' = col ?em L" and col_date: "col ''date'' L' = col ''date'' L"
    unfolding L' using len by (simp_all add: col_set_column_other)
  have g1: "groupby_sum ''scope'' ?em L' = groupby_sum ''scope'' ?em L"
    unfolding L' using len by (intro groupby_sum_cong pair_set_column_other) simp_all
  have g2: "groupby_sum ''category'' ?em L' = groupby_sum ''category'' ?em L"
    unfolding L' using len by (intro groupby_sum_cong pair_set_column_other) simp_all
  have idem: "set_column ''month'' months L' = L'"
    unfolding L' using len by (rule set_column_idem)
  have again: "get_emissions_summary P L' = (Inr s, L')"
    using ne c cols fl m
    by (simp add: get_emissions_summary_def Let_def col_em col_date g1 g2 idem s)
  have cells: "(rows L' ! i) c = (rows L ! i) c" if "i < length (rows L)" "c \<noteq> ''month''" for i c
    unfolding L' using that len by (simp add: set_column_nth)
  show ?thesis
    using again lenL' cells cols month False by simp
qed

lemma get_emissions_summary_repeatable_example:
  "get_emissions_summary example_lib example_ledger
     = (Inr \<lparr>total_emissions = 820, scope_breakdown = [(Str ''Scope 2'', 820)],
              category_breakdown = [(Str ''Electricity'', 820)],
              time_series = [(Str ''Scope 2'', [(Str ''2025-01'', 820)])]\<rparr>,
        set_column ''month'' [Str ''2025-01''] example_ledger)
   \<and> get_emissions_summary example_lib (set_column ''month'' [Str ''2025-01''] example_ledger)
     = (Inr \<lparr>total_emissions = 820, scope_breakdown = [(Str ''Scope 2'', 820)],
              category_breakdown = [(Str ''Electricity'', 820)],
              time_series = [(Str ''Scope 2'', [(Str ''2025-01'', 820)])]\<rparr>,
        set_column ''month'' [Str ''2025-01''] example_ledger)
   \<and> \<not> df_empty example_ledger
   \<and> ''month'' \<in> set (columns (set_column ''month'' [Str ''2025-01''] example_ledger))"
proof -
  have 1: "get_emissions_summary example_lib example_ledger
     = (Inr \<lparr>total_emissions = 820, scope_breakdown = [(Str ''Scope 2'', 820)],
              category_breakdown = [(Str ''Electricity'', 820)],
              time_series = [(Str ''Scope 2'', [(Str ''2025-01'', 820)])]\<rparr>,
        set_column ''month'' [Str ''2025-01''] example_ledger)"
    by (simp add: get_emissions_summary_def example_ledger_unfold df_empty_def col_def mk_row_apply
      example_lib_def Let_def groupby_sum_def group_keys_def month_scope_sums_def set_column_def)
  have 2: "\<not> df_empty example_ledger"
    by (simp add: example_ledger_unfold df_empty_def)
  show ?thesis
    using get_emissions_summary_repeatable [OF 1] 1 2 by simp
qed

text \<open>
  C8: the summary is to be a pure function of the record set, and the call is not to
  modify the ledger. The code assigns \<open>self.emissions_data['month']\<close>, where
  \<open>save_emissions_data\<close> and \<open>get_filtered_data\<close> copy the table before they touch it:
  after the summary of the example ledger, the ledger has the column \<open>month\<close>, which it
  did not have before the call.
\<close>

theorem get_emissions_summary_adds_month_column:
  "''month'' \<notin> set (columns example_ledger)
   \<and> ''month'' \<in> set (columns (snd (get_emissions_summary example_lib example_ledger)))
   \<and> snd (get_emissions_summary example_lib example_ledger) \<noteq> example_ledger"
proof -
  have 1: "''month'' \<notin> set (columns example_ledger)"
    by (simp add: example_ledger_unfold)
  have 2: "''month'' \<in> set (columns (snd (get_emissions_summary example_lib example_ledger)))"
    by (simp add: get_emissions_summary_def example_ledger_unfold df_empty_def col_def mk_row_apply
      example_lib_def Let_def set_column_def)
  from 1 2 show ?thesis by auto
qed

text \<open>
  C9: on an empty ledger the summary is returned, not an error: its total is 0 and its
  scope, category and time-series breakdowns are empty; the ledger is unchanged.
\<close>

theorem get_emissions_summary_empty:
  "df_empty L \<Longrightarrow>
     get_emissions_summary P L =
       (Inr \<lparr>total_emissions = 0, scope_breakdown = [], category_breakdown = [], time_series = []\<rparr>, L)"
  by (simp add: get_emissions_summary_def)

theorem get_emissions_summary_empty_witness:
  "df_empty create_empty_emissions_data
   \<and> get_emissions_summary example_lib create_empty_emissions_data =
       (Inr \<lparr>total_emissions = 0, scope_breakdown = [], category_breakdown = [], time_series = []\<rparr>,
        create_empty_emissions_data)"
  using get_emissions_summary_empty [of create_empty_emissions_data example_lib]
  by (simp add: df_empty_def create_empty_emissions_data_def)

subsection \<open>When the filter and the summary return\<close>

text \<open>
  Neither function catches an exception. Both return on a ledger that has the columns
  they read, whose date cells are timestamps or missing and whose emissions are floats,
  and, for the filter, with date arguments that the parser accepts.
\<close>

lemma traverse_total:
  "\<forall>x \<in> set xs. \<exists>y. f x = Inr y \<Longrightarrow> \<exists>ys. traverse f xs = Inr ys"
proof (induction xs)
  case Nil
  then show ?case by simp
next
  case (Cons x xs)
  then obtain y ys where "f x = Inr y" and "traverse f xs = Inr ys"
    by auto
  then show ?case by simp
qed

lemma filter_equal_returns:
  "c \<in> set (columns data) \<Longrightarrow> \<exists>D. filter_equal c v data = Inr D"
  by (simp add: filter_equal_def)

lemma date_ge_returns:
  assumes "v = NA \<or> (\<exists>d. v = Ts d)"
  shows "\<exists>b. date_ge v (Ts t) = Inr b"
proof (cases v)
  case NA
  then have "date_ge v (Ts t) = Inr False" by simp
  then show ?thesis ..
next
  case (Ts d)
  then have "date_ge v (Ts t) = Inr (t \<le> d)" by simp
  then show ?thesis ..
next
  case (Str x)
  with assms show ?thesis by simp
next
  case (Num x)
  with assms show ?thesis by simp
qed

lemma date_le_returns:
  assumes "v = NA \<or> (\<exists>d. v = Ts d)"
  shows "\<exists>b. date_le v (Ts t) = Inr b"
proof (cases v)
  case NA
  then have "date_le v (Ts t) = Inr False" by simp
  then show ?thesis ..
next
  case (Ts d)
  then have "date_le v (Ts t) = Inr (d \<le> t)" by simp
  then show ?thesis ..
next
  case (Str x)
  with assms show ?thesis by simp
next
  case (Num x)
  with assms show ?thesis by simp
qed

lemma dt_strftime_returns: "v = NA \<or> (\<exists>d. v = Ts d) \<Longrightarrow> \<exists>m. dt_strftime P v = Inr m"
  by (cases v) simp_all

lemma filter_dates_returns:
  assumes "''date'' \<in> set (columns data)"
    and "\<forall>v \<in> set (col ''date'' data). v = NA \<or> (\<exists>d. v = Ts d)"
    and "truthy start_date \<and> truthy end_date
           \<longrightarrow> (\<exists>s t. to_datetime P start_date = Inr s \<and> to_datetime P end_date = Inr t)"
  shows "\<exists>D. filter_dates P start_date end_date data = Inr D"
proof (cases "truthy start_date \<and> truthy end_date")
  case False
  then show ?thesis by (auto simp: filter_dates_def)
next
  case True
  with assms(3) obtain s t where s: "to_datetime P start_date = Inr s" and t: "to_datetime P end_date = Inr t"
    by blast
  from True s obtain s' where s': "s = Ts s'" using to_datetime_truthy by blast
  from True t obtain t' where t': "t = Ts t'" using to_datetime_truthy by blast
  have "\<exists>b. date_ge v s = Inr b" if "v \<in> set (col ''date'' data)" for v
  proof -
    from assms(2) that have "v = NA \<or> (\<exists>d. v = Ts d)" ..
    then show ?thesis unfolding s' by (rule date_ge_returns)
  qed
  then have "\<forall>v \<in> set (col ''date'' data). \<exists>b. date_ge v s = Inr b" ..
  from traverse_total [of "col ''date'' data" "\<lambda>v. date_ge v s", OF this]
  obtain ge where ge: "traverse (\<lambda>v. date_ge v s) (col ''date'' data) = Inr ge" ..
  have "\<exists>b. date_le v t = Inr b" if "v \<in> set (col ''date'' data)" for v
  proof -
    from assms(2) that have "v = NA \<or> (\<exists>d. v = Ts d)" ..
    then show ?thesis unfolding t' by (rule date_le_returns)
  qed
  then have "\<forall>v \<in> set (col ''date'' data). \<exists>b. date_le v t = Inr b" ..
  from traverse_total [of "col ''date'' data" "\<lambda>v. date_le v t", OF this]
  obtain le where le: "traverse (\<lambda>v. date_le v t) (col ''date'' data) = Inr le" ..
  show ?thesis
    using True assms(1) s t ge le by (simp add: filter_dates_def)
qed

lemma get_filtered_data_returns:
  assumes "''date'' \<in> set (columns L)" "''scope'' \<in> set (columns L)" "''category'' \<in> set (columns L)"
    and "\<forall>v \<in> set (col ''date'' L). v = NA \<or> (\<exists>d. v = Ts d)"
    and "truthy start_date \<and> truthy end_date
           \<longrightarrow> (\<exists>s t. to_datetime P start_date = Inr s \<and> to_datetime P end_date = Inr t)"
  shows "\<exists>D. fst (get_filtered_data P L start_date end_date scope category) = Inr D"
proof -
  from filter_dates_returns [OF assms(1,4,5)]
  obtain d1 where 1: "filter_dates P start_date end_date L = Inr d1" by blast
  have c1: "columns d1 = columns L" using filter_dates_Inr [OF 1] by simp
  have "''scope'' \<in> set (columns d1)" using assms(2) c1 by simp
  from filter_equal_returns [OF this]
  obtain d2 where 2: "filter_equal ''scope'' scope d1 = Inr d2" by blast
  have c2: "columns d2 = columns L" using filter_equal_Inr [OF 2] c1 by simp
  have "''category'' \<in> set (columns d2)" using assms(3) c2 by simp
  from filter_equal_returns [OF this]
  obtain d3 where 3: "filter_equal ''category'' category d2 = Inr d3" by blast
  show ?thesis
    using 1 2 3 by (simp add: get_filtered_data_def)
qed

lemma get_emissions_summary_returns:
  assumes "''emissions_kgCO2e'' \<in> set (columns L)" "''scope'' \<in> set (columns L)"
      "''category'' \<in> set (columns L)" "''date'' \<in> set (columns L)"
    and "list_all is_float (col ''emissions_kgCO2e'' L)"
    and "\<forall>v \<in> set (col ''date'' L). v = NA \<or> (\<exists>d. v = Ts d)"
  shows "\<exists>s. fst (get_emissions_summary P L) = Inr s"
proof -
  have "\<forall>v \<in> set (col ''date'' L). \<exists>m. dt_strftime P v = Inr m"
    using assms(6) dt_strftime_returns by blast
  then obtain months where "traverse (dt_strftime P) (col ''date'' L) = Inr months"
    using traverse_total by blast
  then show ?thesis
    using assms(1-5) by (simp add: get_emissions_summary_def Let_def)
qed

subsection \<open>Rows are missing outside the columns\<close>

text \<open>
  Every operation of the ledger returns tables whose rows are \<open>NA\<close> under the labels
  that are not columns, when it is given such tables.
\<close>

lemma wf_create_empty_emissions_data: "wf_frame create_empty_emissions_data"
  by (simp add: wf_frame_def create_empty_emissions_data_def)

lemma wf_set_column:
  assumes "wf_frame df"
  shows "wf_frame (set_column c vals df)"
  unfolding wf_frame_def
proof (intro ballI allI impI)
  fix r' c'
  assume r': "r' \<in> set (rows (set_column c vals df))"
    and c': "c' \<notin> set (columns (set_column c vals df))"
  from r' obtain r v where rv: "(r, v) \<in> set (zip (rows df) vals)" and eq: "r' = r(c := v)"
    by (auto simp: set_column_def)
  from rv have "r \<in> set (rows df)" by (rule set_zip_leftD)
  moreover from c' have "c' \<noteq> c" and "c' \<notin> set (columns df)"
    by (auto simp: set_column_def split: if_splits)
  ultimately show "r' c' = NA"
    using assms eq by (simp add: wf_frame_def)
qed

lemma wf_concat_frames: "wf_frame a \<Longrightarrow> wf_frame b \<Longrightarrow> wf_frame (concat_frames a b)"
  by (auto simp: wf_frame_def concat_frames_def)

lemma wf_frame_sub:
  assumes "wf_frame df" and "set (rows d) \<subseteq> set (rows df)" and "set (columns df) \<subseteq> set (columns d)"
  shows "wf_frame d"
  unfolding wf_frame_def
proof (intro ballI allI impI)
  fix r c assume "r \<in> set (rows d)" and "c \<notin> set (columns d)"
  with assms(2,3) have "r \<in> set (rows df)" and "c \<notin> set (columns df)" by auto
  with assms(1) show "r c = NA" by (simp add: wf_frame_def)
qed

lemma wf_select_rows: "wf_frame df \<Longrightarrow> wf_frame (select_rows keep df)"
  by (erule wf_frame_sub) (auto simp: select_rows_def dest: set_zip_leftD)

lemma wf_add_emission_entry:
  assumes "wf_frame L"
  shows "wf_frame (snd (add_emission_entry P L date scope category activity quantity unit' emission_factor notes))"
proof (cases "fst (add_emission_entry P L date scope category activity quantity unit' emission_factor notes)")
  case False
  then have "snd (add_emission_entry P L date scope category activity quantity unit' emission_factor notes) = L"
    by (auto simp: add_emission_entry_def Let_def split: sum.splits)
  with assms show ?thesis by simp
next
  case True
  then obtain q f d where
    "snd (add_emission_entry P L date scope category activity quantity unit' emission_factor notes)
       = concat_frames L \<lparr>columns = [''date'', ''scope'', ''category'', ''activity'', ''quantity'',
                                ''unit'', ''emission_factor'', ''emissions_kgCO2e'', ''notes''],
                     rows = [mk_row
                       [(''date'', d),
                        (''scope'', scope),
                        (''category'', category),
                        (''activity'', activity),
                        (''quantity'', Num q),
                        (''unit'', unit'),
                        (''emission_factor'', Num f),
                        (''emissions_kgCO2e'', Num (q * f)),
                        (''notes'', notes)]]\<rparr>"
    by (auto simp: add_emission_entry_def Let_def split: if_splits sum.splits)
  moreover have "wf_frame \<lparr>columns = [''date'', ''scope'', ''category'', ''activity'', ''quantity'',
                                ''unit'', ''emission_factor'', ''emissions_kgCO2e'', ''notes''],
                     rows = [mk_row
                       [(''date'', d),
                        (''scope'', scope),
                        (''category'', category),
                        (''activity'', activity),
                        (''quantity'', Num q),
                        (''unit'', unit'),
                        (''emission_factor'', Num f),
                        (''emissions_kgCO2e'', Num (q * f)),
                        (''notes'', notes)]]\<rparr>"
    by (simp add: wf_frame_def mk_row_apply)
  ultimately show ?thesis
    using assms by (simp add: wf_concat_frames)
qed

lemma wf_import_csv:
  assumes "wf_frame L" and "wf_frame df"
  shows "wf_frame (snd (import_csv P L df))"
proof (cases "fst (fst (import_csv P L df))")
  case False
  then have "snd (import_csv P L df) = L"
    by (auto simp: import_csv_def Let_def split: sum.splits if_splits)
  with assms show ?thesis by simp
next
  case True
  then obtain dates qs fs where
    d: "traverse (to_datetime P) (col ''date'' df) = Inr dates" and
    q: "traverse (astype_float P) (col ''quantity'' (set_column ''date'' dates df)) = Inr qs" and
    f: "traverse (astype_float P) (col ''emission_factor'' (set_column ''date'' dates df)) = Inr fs"
    by (auto simp: import_csv_def Let_def split: if_splits sum.splits)
  define df1 where "df1 = set_column ''date'' dates df"
  define df2 where "df2 = set_column ''emissions_kgCO2e''
                            (map (\<lambda>(q, f). float_cell (mul_nan q f)) (zip qs fs)) df1"
  define df3 where "df3 = (if ''notes'' \<notin> set (columns df2)
                           then set_column ''notes'' (replicate (length (rows df2)) (Str [])) df2
                           else df2)"
  have L': "snd (import_csv P L df) = concat_frames L df3"
    using True d q f
    by (simp add: import_csv_def Let_def df1_def df2_def df3_def split: if_splits)
  have "wf_frame df3"
    unfolding df3_def df2_def df1_def using assms(2) by (simp add: wf_set_column)
  with assms(1) show ?thesis
    unfolding L' by (rule wf_concat_frames)
qed

lemma wf_get_emissions_summary:
  assumes "wf_frame L"
  shows "wf_frame (snd (get_emissions_summary P L))"
proof -
  have "snd (get_emissions_summary P L) = L
      \<or> (\<exists>months. snd (get_emissions_summary P L) = set_column ''month'' months L)"
    by (auto simp: get_emissions_summary_def Let_def split: sum.splits)
  with assms show ?thesis
    by (auto intro: wf_set_column)
qed

lemma wf_get_filtered_data:
  assumes "wf_frame L" and "fst (get_filtered_data P L start_date end_date scope category) = Inr D"
  shows "wf_frame D"
proof -
  from assms(2) obtain d1 d2 where
    1: "filter_dates P start_date end_date L = Inr d1" and
    2: "filter_equal ''scope'' scope d1 = Inr d2" and
    3: "filter_equal ''category'' category d2 = Inr D"
    by (auto simp: get_filtered_data_def split: sum.splits)
  from filter_dates_Inr [OF 1] filter_equal_Inr [OF 2] filter_equal_Inr [OF 3]
  have "columns D = columns L" and "set (rows D) \<subseteq> set (rows L)"
    by auto
  with assms(1) show ?thesis
    by (auto intro: wf_frame_sub)
qed

end
